theory Spec2Isabelle
  imports Main "HOL-Library.Word"
begin

unbundle bit_operations_syntax

section \<open>Platform primitives used by the node\<close>

text \<open>
  Strings are lists of code units; the model covers the code units below 256 (ASCII and
  Latin-1), which includes every UUID the upload handler generates. File contents and
  digests are lists of bytes. A JavaScript exception is a value of type \<open>js_error\<close>
  carrying its message; a function that may throw returns \<open>js_error + 'a\<close>.
\<close>

type_synonym byte = "8 word"
type_synonym bytes = "byte list"
type_synonym word32 = "32 word"

datatype js_error = Error (message: string)

datatype js_number = Num int | NaN | Infinity | MinusInfinity

definition newline :: char where
  "newline = CHR 0x0A"

subsection \<open>String.prototype.trim and parseInt\<close>

text \<open>White space and line terminators of ECMAScript, within the modelled range.\<close>

definition is_ws :: "char \<Rightarrow> bool" where
  "is_ws c = (c \<in> set [CHR 0x09, CHR 0x0A, CHR 0x0B, CHR 0x0C, CHR 0x0D, CHR 0x20, CHR 0xA0])"

definition trim :: "string \<Rightarrow> string" where
  "trim s = rev (dropWhile is_ws (rev (dropWhile is_ws s)))"

definition digit_of :: "nat \<Rightarrow> char \<Rightarrow> nat option" where
  "digit_of radix c =
     (let k = (of_char c :: nat);
          v = (if 48 \<le> k \<and> k \<le> 57 then Some (k - 48)
               else if 97 \<le> k \<and> k \<le> 122 then Some (k - 87)
               else if 65 \<le> k \<and> k \<le> 90 then Some (k - 55)
               else None)
      in case v of None \<Rightarrow> None | Some d \<Rightarrow> if d < radix then Some d else None)"

fun parse_digits :: "nat \<Rightarrow> string \<Rightarrow> nat option \<Rightarrow> nat option" where
  "parse_digits radix [] acc = acc"
| "parse_digits radix (c # cs) acc =
     (case digit_of radix c of
        None \<Rightarrow> acc
      | Some d \<Rightarrow> parse_digits radix cs (Some (radix * (case acc of None \<Rightarrow> 0 | Some a \<Rightarrow> a) + d)))"

text \<open>
  The value of a run of digits as a JavaScript number: integers below \<open>2^53\<close> are
  exact; a larger one is rounded to 53 significant bits, ties to even; \<open>None\<close> is
  \<open>Infinity\<close>.
\<close>

function bit_width :: "nat \<Rightarrow> nat" where
  "bit_width n = (if n = 0 then 0 else Suc (bit_width (n div 2)))"
  by pat_completeness auto
termination
  by (relation "measure id") auto

declare bit_width.simps [simp del]

definition to_double :: "nat \<Rightarrow> nat option" where
  "to_double n =
     (if n < 2 ^ 53 then Some n
      else
        (let s = bit_width n - 53;
             q = n div 2 ^ s;
             r = n mod 2 ^ s;
             h = 2 ^ (s - 1);
             q' = (if h < r \<or> (r = h \<and> odd q) then q + 1 else q);
             v = q' * 2 ^ s
         in if v < 2 ^ 1024 then Some v else None))"

text \<open>
  \<open>parseInt(s)\<close> without a radix: leading white space, an optional sign, an optional
  \<open>0x\<close> prefix, then the longest run of digits; \<open>NaN\<close> when there is none. The sign
  of a zero is not modelled.
\<close>

definition parseInt :: "string \<Rightarrow> js_number" where
  "parseInt s =
     (let s1 = dropWhile is_ws s;
          neg = (take 1 s1 = ''-'');
          s2 = (if take 1 s1 = ''-'' \<or> take 1 s1 = ''+'' then drop 1 s1 else s1);
          hexp = (take 2 s2 = ''0x'' \<or> take 2 s2 = ''0X'');
          s3 = (if hexp then drop 2 s2 else s2)
      in case parse_digits (if hexp then 16 else 10) s3 None of
           None \<Rightarrow> NaN
         | Some n \<Rightarrow>
             (case to_double n of
                None \<Rightarrow> (if neg then MinusInfinity else Infinity)
              | Some v \<Rightarrow> Num (if neg then - int v else int v)))"

subsection \<open>UTF-8 encoding of a string\<close>

definition utf8_char :: "char \<Rightarrow> bytes" where
  "utf8_char c =
     (let n = (of_char c :: nat)
      in if n < 128 then [of_nat n] else [of_nat (192 + n div 64), of_nat (128 + n mod 64)])"

definition utf8 :: "string \<Rightarrow> bytes" where
  "utf8 s = concat (map utf8_char s)"

subsection \<open>Buffer.toString(): UTF-8 decoding of one chunk\<close>

text \<open>
  Each chunk is decoded on its own. A byte below \<open>0x80\<close> is its character; \<open>0xC2\<close>
  or \<open>0xC3\<close> followed by a continuation byte is a character from \<open>U+0080\<close> to
  \<open>U+00FF\<close>. Every other chunk decodes to text outside the modelled range (a
  character beyond \<open>U+00FF\<close>, or the replacement character \<open>U+FFFD\<close> that an
  invalid sequence or a sequence cut by the end of the chunk becomes): \<open>None\<close>.
\<close>

fun buffer_toString :: "bytes \<Rightarrow> string option" where
  "buffer_toString [] = Some []"
| "buffer_toString (b # bs) =
     (let k = unat b
      in if k < 128 then
           (case buffer_toString bs of None \<Rightarrow> None | Some s \<Rightarrow> Some (char_of k # s))
         else if k = 194 \<or> k = 195 then
           (case bs of
              [] \<Rightarrow> None
            | c # rest \<Rightarrow>
                (let j = unat c
                 in if 128 \<le> j \<and> j \<le> 191 then
                      (case buffer_toString rest of
                         None \<Rightarrow> None
                       | Some s \<Rightarrow> Some (char_of (64 * (k - 192) + (j - 128)) # s))
                    else None))
         else None)"

subsection \<open>crypto.createHash('sha256'): SHA-256 (FIPS 180-4)\<close>

text \<open>The round constants and the initial hash value of the standard, in decimal.\<close>

type_synonym sha_state =
  "word32 \<times> word32 \<times> word32 \<times> word32 \<times> word32 \<times> word32 \<times> word32 \<times> word32"

definition K256 :: "word32 list" where
  "K256 = [
    1116352408, 1899447441, 3049323471, 3921009573, 961987163, 1508970993, 2453635748, 2870763221,
    3624381080, 310598401, 607225278, 1426881987, 1925078388, 2162078206, 2614888103, 3248222580,
    3835390401, 4022224774, 264347078, 604807628, 770255983, 1249150122, 1555081692, 1996064986,
    2554220882, 2821834349, 2952996808, 3210313671, 3336571891, 3584528711, 113926993, 338241895,
    666307205, 773529912, 1294757372, 1396182291, 1695183700, 1986661051, 2177026350, 2456956037,
    2730485921, 2820302411, 3259730800, 3345764771, 3516065817, 3600352804, 4094571909, 275423344,
    430227734, 506948616, 659060556, 883997877, 958139571, 1322822218, 1537002063, 1747873779,
    1955562222, 2024104815, 2227730452, 2361852424, 2428436474, 2756734187, 3204031479, 3329325298]"

definition H256 :: sha_state where
  "H256 = (1779033703, 3144134277, 1013904242, 2773480762,
           1359893119, 2600822924, 528734635, 1541459225)"

definition rotr :: "nat \<Rightarrow> word32 \<Rightarrow> word32" where
  "rotr n x = drop_bit n x OR push_bit (32 - n) x"

definition Ch :: "word32 \<Rightarrow> word32 \<Rightarrow> word32 \<Rightarrow> word32" where
  "Ch x y z = (x AND y) XOR (NOT x AND z)"

definition Maj :: "word32 \<Rightarrow> word32 \<Rightarrow> word32 \<Rightarrow> word32" where
  "Maj x y z = (x AND y) XOR (x AND z) XOR (y AND z)"

definition bsig0 :: "word32 \<Rightarrow> word32" where
  "bsig0 x = rotr 2 x XOR rotr 13 x XOR rotr 22 x"

definition bsig1 :: "word32 \<Rightarrow> word32" where
  "bsig1 x = rotr 6 x XOR rotr 11 x XOR rotr 25 x"

definition ssig0 :: "word32 \<Rightarrow> word32" where
  "ssig0 x = rotr 7 x XOR rotr 18 x XOR drop_bit 3 x"

definition ssig1 :: "word32 \<Rightarrow> word32" where
  "ssig1 x = rotr 17 x XOR rotr 19 x XOR drop_bit 10 x"

definition be64 :: "nat \<Rightarrow> bytes" where
  "be64 n = (let w = (of_nat n :: 64 word)
             in map (\<lambda>i. ucast (drop_bit (8 * (7 - i)) w)) [0..<8])"

definition sha_pad :: "bytes \<Rightarrow> bytes" where
  "sha_pad m =
     m @ [0x80] @ replicate ((119 - length m mod 64) mod 64) 0 @ be64 (8 * length m)"

definition blocks64 :: "bytes \<Rightarrow> bytes list" where
  "blocks64 p = map (\<lambda>i. take 64 (drop (64 * i) p)) [0..<length p div 64]"

definition be32 :: "bytes \<Rightarrow> word32" where
  "be32 bs = foldl (\<lambda>acc b. push_bit 8 acc OR ucast b) 0 bs"

definition words16 :: "bytes \<Rightarrow> word32 list" where
  "words16 blk = map (\<lambda>i. be32 (take 4 (drop (4 * i) blk))) [0..<16]"

fun extend :: "nat \<Rightarrow> word32 list \<Rightarrow> word32 list" where
  "extend 0 w = w"
| "extend (Suc n) w =
     extend n (w @ [ssig1 (w ! (length w - 2)) + w ! (length w - 7)
                    + ssig0 (w ! (length w - 15)) + w ! (length w - 16)])"

definition schedule :: "bytes \<Rightarrow> word32 list" where
  "schedule blk = extend 48 (words16 blk)"

fun sha_round :: "sha_state \<Rightarrow> word32 \<times> word32 \<Rightarrow> sha_state" where
  "sha_round (a, b, c, d, e, f, g, h) (k, w) =
     (let t1 = h + bsig1 e + Ch e f g + k + w;
          t2 = bsig0 a + Maj a b c
      in (t1 + t2, a, b, c, d + t1, e, f, g))"

fun add_state :: "sha_state \<Rightarrow> sha_state \<Rightarrow> sha_state" where
  "add_state (a, b, c, d, e, f, g, h) (a', b', c', d', e', f', g', h') =
     (a + a', b + b', c + c', d + d', e + e', f + f', g + g', h + h')"

definition compress :: "sha_state \<Rightarrow> bytes \<Rightarrow> sha_state" where
  "compress hs blk = add_state hs (foldl sha_round hs (zip K256 (schedule blk)))"

definition bytes32 :: "word32 \<Rightarrow> bytes" where
  "bytes32 w = [ucast (drop_bit 24 w), ucast (drop_bit 16 w), ucast (drop_bit 8 w), ucast w]"

fun digest :: "sha_state \<Rightarrow> bytes" where
  "digest (a, b, c, d, e, f, g, h) = concat (map bytes32 [a, b, c, d, e, f, g, h])"

definition sha256 :: "bytes \<Rightarrow> bytes" where
  "sha256 m = digest (foldl compress H256 (blocks64 (sha_pad m)))"

subsection \<open>Buffer.toString('hex') and Buffer.toString('base64')\<close>

definition hexdigit :: "nat \<Rightarrow> char" where
  "hexdigit n = ''0123456789abcdef'' ! (n mod 16)"

definition hex :: "bytes \<Rightarrow> string" where
  "hex bs = concat (map (\<lambda>b. [hexdigit (unat b div 16), hexdigit (unat b)]) bs)"

definition b64char :: "nat \<Rightarrow> char" where
  "b64char n =
     (if n < 26 then char_of (65 + n)
      else if n < 52 then char_of (71 + n)
      else if n < 62 then char_of (n - 4)
      else if n = 62 then CHR ''+'' else CHR ''/'')"

fun base64 :: "bytes \<Rightarrow> string" where
  "base64 [] = []"
| "base64 [a] =
     [b64char (unat a div 4), b64char (unat a mod 4 * 16), CHR ''='', CHR ''='']"
| "base64 [a, b] =
     [b64char (unat a div 4), b64char (unat a mod 4 * 16 + unat b div 16),
      b64char (unat b mod 16 * 4), CHR ''='']"
| "base64 (a # b # c # r) =
     [b64char (unat a div 4), b64char (unat a mod 4 * 16 + unat b div 16),
      b64char (unat b mod 16 * 4 + unat c div 64), b64char (unat c mod 64)] @ base64 r"

text \<open>The decoding a client applies to the \<open>content\<close> field (RFC 4648, with padding).\<close>

definition b64val :: "char \<Rightarrow> nat" where
  "b64val c =
     (let k = (of_char c :: nat)
      in if 65 \<le> k \<and> k \<le> 90 then k - 65
         else if 97 \<le> k \<and> k \<le> 122 then k - 71
         else if 48 \<le> k \<and> k \<le> 57 then k + 4
         else if k = 43 then 62 else 63)"

fun base64_decode :: "string \<Rightarrow> bytes" where
  "base64_decode (w # x # y # z # r) =
     (if y = CHR ''='' then [of_nat (b64val w * 4 + b64val x div 16)]
      else if z = CHR ''='' then
        [of_nat (b64val w * 4 + b64val x div 16),
         of_nat (b64val x mod 16 * 16 + b64val y div 4)]
      else
        [of_nat (b64val w * 4 + b64val x div 16),
         of_nat (b64val x mod 16 * 16 + b64val y div 4),
         of_nat (b64val y mod 4 * 64 + b64val z)] @ base64_decode r)"
| "base64_decode _ = []"

subsection \<open>The file system: fs.existsSync and fs.readFileSync\<close>

text \<open>
  A path is absent, names a readable regular file, or names something that exists but
  cannot be read as a file (a directory, a file without read permission): reading it
  throws with the given message.
\<close>

datatype fs_entry = RegularFile bytes | Unreadable string

type_synonym filesystem = "string \<Rightarrow> fs_entry option"

definition existsSync :: "filesystem \<Rightarrow> string \<Rightarrow> bool" where
  "existsSync fs p = (case fs p of None \<Rightarrow> False | Some _ \<Rightarrow> True)"

definition readFileSync :: "filesystem \<Rightarrow> string \<Rightarrow> js_error + bytes" where
  "readFileSync fs p =
     (case fs p of
        None \<Rightarrow>
          Inl (Error (''ENOENT: no such file or directory, open ''
                      @ [CHR 0x27] @ p @ [CHR 0x27]))
      | Some (Unreadable msg) \<Rightarrow> Inl (Error msg)
      | Some (RegularFile content) \<Rightarrow> Inr content)"

subsection \<open>src/utils/mime-types: getMimeType\<close>

definition basename_part :: "string \<Rightarrow> string" where
  "basename_part p =
     (let q = dropWhile (\<lambda>c. c = CHR ''/'') (rev p)
      in rev (takeWhile (\<lambda>c. c \<noteq> CHR ''/'') q))"

text \<open>path.extname (POSIX): from the last dot of the last path segment, unless that
  dot starts the segment or the segment is \<open>..\<close>.\<close>

definition extname :: "string \<Rightarrow> string" where
  "extname p =
     (let b = basename_part p;
          e = rev (takeWhile (\<lambda>c. c \<noteq> CHR ''.'') (rev b));
          stem = take (length b - Suc (length e)) b
      in if CHR ''.'' \<in> set b
         then (if stem = [] \<or> b = ''..'' then [] else CHR ''.'' # e)
         else [])"

definition lower_char :: "char \<Rightarrow> char" where
  "lower_char c =
     (let k = (of_char c :: nat)
      in if (65 \<le> k \<and> k \<le> 90) \<or> (192 \<le> k \<and> k \<le> 214) \<or> (216 \<le> k \<and> k \<le> 222)
         then char_of (k + 32) else c)"

definition toLowerCase :: "string \<Rightarrow> string" where
  "toLowerCase s = map lower_char s"

definition mimeTypes :: "(string \<times> string) list" where
  "mimeTypes = [
     (''.txt'', ''text/plain''),
     (''.pdf'', ''application/pdf''),
     (''.jpg'', ''image/jpeg''),
     (''.jpeg'', ''image/jpeg''),
     (''.png'', ''image/png''),
     (''.gif'', ''image/gif''),
     (''.json'', ''application/json''),
     (''.zip'', ''application/zip''),
     (''.doc'', ''application/msword''),
     (''.docx'', ''application/vnd.openxmlformats-officedocument.wordprocessingml.document''),
     (''.mp4'', ''video/mp4''),
     (''.mp3'', ''audio/mpeg'')]"

definition getMimeType :: "string \<Rightarrow> string" where
  "getMimeType fileName =
     (case map_of mimeTypes (toLowerCase (extname fileName)) of
        Some m \<Rightarrow> m
      | None \<Rightarrow> ''application/octet-stream'')"

section \<open>src/config/constants.js\<close>

definition PORT :: nat where
  "PORT = 3000"

definition SERVER_ADDRESS :: string where
  "SERVER_ADDRESS = ''127.0.0.1:3000''"

section \<open>src/services/dht.service.js: class DHTService\<close>

text \<open>
  The entries of the \<open>storedFiles\<close> map. The fields carry the prefix \<open>md_\<close>; the
  property \<open>size\<close> is \<open>md_size\<close>.
\<close>

record file_metadata =
  md_filePath :: string
  md_fileName :: string
  md_topic :: bytes
  md_size :: js_number
  md_uploadedAt :: string
  md_serverAddress :: string

text \<open>
  The service object: its two maps, and the topics handed to
  \<open>swarm.join(topic, {server: true, client: false})\<close>, in call order.
\<close>

record dht_service =
  storedFiles :: "string \<rightharpoonup> file_metadata"
  fileIdToPath :: "string \<rightharpoonup> string"
  swarm_joins :: "bytes list"

definition new_DHTService :: dht_service where
  "new_DHTService = \<lparr>storedFiles = Map.empty, fileIdToPath = Map.empty, swarm_joins = []\<rparr>"

record announce_result =
  res_fileId :: string
  res_fileName :: string
  res_topic :: string
  res_serverAddress :: string

text \<open>The topic expression of \<open>announceFile\<close>:
  \<open>crypto.createHash('sha256').update(fileId).digest()\<close>.\<close>

definition server_topic :: "string \<Rightarrow> bytes" where
  "server_topic fileId = sha256 (utf8 fileId)"

text \<open>
  \<open>announceFile\<close>. \<open>now\<close> is the reading of \<open>new Date().toISOString()\<close>; \<open>flush\<close> is
  the outcome of \<open>await this.swarm.flush()\<close>: \<open>None\<close> when it resolves, \<open>Some m\<close> when
  it rejects with message \<open>m\<close>. Both maps are written and the topic is joined before the
  flush is awaited, so they keep their new values when the call fails.
\<close>

definition announceFile ::
  "string \<Rightarrow> string option \<Rightarrow> dht_service \<Rightarrow> string \<Rightarrow> string \<Rightarrow> string \<Rightarrow> js_number
     \<Rightarrow> (js_error + announce_result) \<times> dht_service" where
  "announceFile now flush this fileId filePath fileName fileSize =
     (let topic = server_topic fileId;
          fileMetadata = \<lparr>md_filePath = filePath, md_fileName = fileName, md_topic = topic,
                          md_size = fileSize, md_uploadedAt = now,
                          md_serverAddress = SERVER_ADDRESS\<rparr>;
          this1 = this\<lparr>storedFiles := (storedFiles this)(fileId \<mapsto> fileMetadata)\<rparr>;
          this2 = this1\<lparr>fileIdToPath := (fileIdToPath this1)(fileId \<mapsto> filePath)\<rparr>;
          this3 = this2\<lparr>swarm_joins := swarm_joins this2 @ [topic]\<rparr>
      in case flush of
           Some m \<Rightarrow> (Inl (Error m), this3)
         | None \<Rightarrow>
             (Inr \<lparr>res_fileId = fileId, res_fileName = fileName, res_topic = hex topic,
                   res_serverAddress = SERVER_ADDRESS\<rparr>, this3))"

definition getFilePath :: "dht_service \<Rightarrow> string \<Rightarrow> string option" where
  "getFilePath this fileId = fileIdToPath this fileId"

definition getFileMetadata :: "dht_service \<Rightarrow> string \<Rightarrow> file_metadata option" where
  "getFileMetadata this fileId = storedFiles this fileId"

definition hasFile :: "dht_service \<Rightarrow> string \<Rightarrow> bool" where
  "hasFile this fileId = (case storedFiles this fileId of None \<Rightarrow> False | Some _ \<Rightarrow> True)"

text \<open>The operations that change the service object, run in sequence from a state.\<close>

datatype node_op = Announce string "string option" string string string js_number

fun run_op :: "dht_service \<Rightarrow> node_op \<Rightarrow> dht_service" where
  "run_op this (Announce now flush fileId filePath fileName fileSize) =
     snd (announceFile now flush this fileId filePath fileName fileSize)"

definition run_ops :: "dht_service \<Rightarrow> node_op list \<Rightarrow> dht_service" where
  "run_ops this ops = foldl run_op this ops"

subsection \<open>setupConnectionHandler: one peer connection\<close>

text \<open>
  The document handed to \<open>conn.write(JSON.stringify(...))\<close>, as a tagged value:
  \<open>Success fileId fileName size mimeType serverAddress content\<close> stands for
  \<open>{success: true, ...}\<close> and \<open>Failure error message\<close> for \<open>{success: false, ...}\<close>.
\<close>

datatype response =
    Success (resp_fileId: string) (resp_fileName: string) (resp_size: nat)
            (resp_mimeType: string) (resp_serverAddress: string) (resp_content: string)
  | Failure (resp_error: string) (resp_message: string)

text \<open>
  A connection: the handler's \<open>requestData\<close>, the documents written to the peer, the
  delays of the pending \<open>setTimeout(() => conn.end(), 100)\<close> timers, whether
  \<open>conn.end()\<close> has run, and the paths given to \<open>fs.readFileSync\<close>.
\<close>

record connection =
  requestData :: string
  written :: "response list"
  timers :: "nat list"
  ended :: bool
  reads :: "string list"

definition new_connection :: connection where
  "new_connection = \<lparr>requestData = [], written = [], timers = [], ended = False, reads = []\<rparr>"

text \<open>A write after \<open>conn.end()\<close> does not reach the peer.\<close>

definition conn_write :: "connection \<Rightarrow> response \<Rightarrow> connection" where
  "conn_write conn doc = (if ended conn then conn else conn\<lparr>written := written conn @ [doc]\<rparr>)"

text \<open>The body of the \<open>'data'\<close> callback, after its chunk has been decoded: \<open>data\<close>
  is the value of \<open>data.toString()\<close>. The callback on the bytes of a chunk is
  \<open>conn_receive\<close> below.\<close>

definition on_data :: "dht_service \<Rightarrow> filesystem \<Rightarrow> connection \<Rightarrow> string \<Rightarrow> connection" where
  "on_data this fs conn data =
     (let conn1 = conn\<lparr>requestData := requestData conn @ data\<rparr>
      in if newline \<in> set (requestData conn1) then
           (let fileId = trim (requestData conn1);
                conn2 =
                  (case storedFiles this fileId of
                     Some fileInfo \<Rightarrow>
                       (let conn' = conn1\<lparr>reads := reads conn1 @ [md_filePath fileInfo]\<rparr>
                        in case readFileSync fs (md_filePath fileInfo) of
                             Inr fileContent \<Rightarrow>
                               conn_write conn'
                                 (Success fileId (md_fileName fileInfo) (length fileContent)
                                    (getMimeType (md_fileName fileInfo)) SERVER_ADDRESS
                                    (base64 fileContent))
                           | Inl error \<Rightarrow>
                               conn_write conn' (Failure ''Failed to read file'' (message error)))
                   | None \<Rightarrow>
                       conn_write conn1
                         (Failure ''File not found'' (''No file with ID: '' @ fileId)))
            in conn2\<lparr>timers := timers conn2 @ [100]\<rparr>)
         else conn1)"

text \<open>What happens on a connection: a chunk arrives, or the oldest pending timer fires
  and runs \<open>conn.end()\<close>.\<close>

datatype conn_event = Data string | Timeout

fun conn_step :: "dht_service \<Rightarrow> filesystem \<Rightarrow> connection \<Rightarrow> conn_event \<Rightarrow> connection" where
  "conn_step this fs conn (Data data) = on_data this fs conn data"
| "conn_step this fs conn Timeout =
     (case timers conn of
        [] \<Rightarrow> conn
      | t # ts \<Rightarrow> conn\<lparr>timers := ts, ended := True\<rparr>)"

definition conn_run ::
  "dht_service \<Rightarrow> filesystem \<Rightarrow> connection \<Rightarrow> conn_event list \<Rightarrow> connection" where
  "conn_run this fs conn evs = foldl (conn_step this fs) conn evs"

text \<open>
  The \<open>'data'\<close> callback on the chunks as they arrive, each a buffer of bytes that the
  callback decodes by itself with \<open>data.toString()\<close>. The result is \<open>None\<close> when a
  chunk decodes to text outside the modelled range.
\<close>

fun conn_receive ::
  "dht_service \<Rightarrow> filesystem \<Rightarrow> connection \<Rightarrow> bytes list \<Rightarrow> connection option" where
  "conn_receive this fs conn [] = Some conn"
| "conn_receive this fs conn (buf # bufs) =
     (case buffer_toString buf of
        None \<Rightarrow> None
      | Some data \<Rightarrow> conn_receive this fs (on_data this fs conn data) bufs)"

section \<open>The lookup client: FileDownloader.findAndDownload\<close>

text \<open>The client derives the topic it joins with the same expression, then writes
  \<open>fileId + '\n'\<close> on the connection.\<close>

definition client_topic :: "string \<Rightarrow> bytes" where
  "client_topic fileId = sha256 (utf8 fileId)"

definition client_request :: "string \<Rightarrow> string" where
  "client_request fileId = fileId @ [newline]"

section \<open>db.js: the metadata store\<close>

text \<open>
  A row of table \<open>files\<close> (\<open>file_size\<close> is a nullable \<open>bigint\<close>), and the store as the
  client sees it: the rows in scan order, the server's clock, and whether a round trip
  fails (\<open>Some m\<close>: \<open>client.execute\<close> rejects with message \<open>m\<close>). The table
  \<open>access_logs\<close> is not modelled.
\<close>

record db_row =
  file_id :: string
  file_path :: string
  file_name :: string
  file_size :: "int option"
  uploaded_at :: nat

record cassandra =
  files_table :: "db_row list"
  db_now :: nat
  unavailable :: "string option"

datatype cql =
    InsertFile string string string int
  | SelectFile string
  | SelectAllFiles
  | DeleteFile string
  | SelectFileId string

definition client_execute :: "cassandra \<Rightarrow> cql \<Rightarrow> js_error + (db_row list \<times> cassandra)" where
  "client_execute db q =
     (case unavailable db of
        Some m \<Rightarrow> Inl (Error m)
      | None \<Rightarrow>
          (case q of
             InsertFile k p n z \<Rightarrow>
               Inr ([], db\<lparr>files_table :=
                          filter (\<lambda>r. file_id r \<noteq> k) (files_table db)
                          @ [\<lparr>file_id = k, file_path = p, file_name = n,
                               file_size = Some z, uploaded_at = db_now db\<rparr>]\<rparr>)
           | SelectFile k \<Rightarrow> Inr (filter (\<lambda>r. file_id r = k) (files_table db), db)
           | SelectAllFiles \<Rightarrow> Inr (files_table db, db)
           | DeleteFile k \<Rightarrow>
               Inr ([], db\<lparr>files_table := filter (\<lambda>r. file_id r \<noteq> k) (files_table db)\<rparr>)
           | SelectFileId k \<Rightarrow> Inr (filter (\<lambda>r. file_id r = k) (files_table db), db)))"

text \<open>\<open>Long.prototype.toString()\<close>: the decimal digits of a 64-bit integer.\<close>

function dec_digits :: "nat \<Rightarrow> string" where
  "dec_digits n =
     (if n < 10 then [''0123456789'' ! n]
      else dec_digits (n div 10) @ [''0123456789'' ! (n mod 10)])"
  by pat_completeness auto
termination
  by (relation "measure id") auto

declare dec_digits.simps [simp del]

definition long_toString :: "int \<Rightarrow> string" where
  "long_toString i =
     (if i < 0 then CHR ''-'' # dec_digits (nat (- i)) else dec_digits (nat i))"

text \<open>The objects that \<open>getFileMetadata\<close> and \<open>getAllFiles\<close> build from a row; their
  fields carry the prefix \<open>rec_\<close>.\<close>

record file_record =
  rec_fileId :: string
  rec_filePath :: string
  rec_fileName :: string
  rec_fileSize :: string
  rec_uploadedAt :: nat

definition row_to_record :: "db_row \<Rightarrow> file_record" where
  "row_to_record row =
     \<lparr>rec_fileId = file_id row, rec_filePath = file_path row, rec_fileName = file_name row,
      rec_fileSize = (case file_size row of Some z \<Rightarrow> long_toString z | None \<Rightarrow> ''0''),
      rec_uploadedAt = uploaded_at row\<rparr>"

definition initializeDatabase :: "cassandra \<Rightarrow> js_error + bool" where
  "initializeDatabase db =
     (case unavailable db of Some m \<Rightarrow> Inl (Error m) | None \<Rightarrow> Inr True)"

definition storeFileMetadata ::
  "cassandra \<Rightarrow> string \<Rightarrow> string \<Rightarrow> string \<Rightarrow> int \<Rightarrow> (js_error + bool) \<times> cassandra" where
  "storeFileMetadata db fileId filePath fileName fileSize =
     (case client_execute db (InsertFile fileId filePath fileName fileSize) of
        Inr (rows, db') \<Rightarrow> (Inr True, db')
      | Inl error \<Rightarrow> (Inl error, db))"

definition db_getFileMetadata :: "cassandra \<Rightarrow> string \<Rightarrow> js_error + file_record option" where
  "db_getFileMetadata db fileId =
     (case client_execute db (SelectFile fileId) of
        Inr (rows, db') \<Rightarrow>
          (if length rows = 0 then Inr None else Inr (Some (row_to_record (hd rows))))
      | Inl error \<Rightarrow> Inl error)"

definition getAllFiles :: "cassandra \<Rightarrow> js_error + file_record list" where
  "getAllFiles db =
     (case client_execute db SelectAllFiles of
        Inr (rows, db') \<Rightarrow> Inr (map row_to_record rows)
      | Inl error \<Rightarrow> Inl error)"

definition deleteFileMetadata :: "cassandra \<Rightarrow> string \<Rightarrow> (js_error + bool) \<times> cassandra" where
  "deleteFileMetadata db fileId =
     (case client_execute db (DeleteFile fileId) of
        Inr (rows, db') \<Rightarrow> (Inr True, db')
      | Inl error \<Rightarrow> (Inl error, db))"

text \<open>\<open>fileExists\<close> catches the error of the round trip, logs it and returns \<open>false\<close>.\<close>

definition fileExists :: "cassandra \<Rightarrow> string \<Rightarrow> js_error + bool" where
  "fileExists db fileId =
     (case client_execute db (SelectFileId fileId) of
        Inr (rows, db') \<Rightarrow> Inr (length rows > 0)
      | Inl error \<Rightarrow> Inr False)"

section \<open>server.js: rehydrateDHT and startServer\<close>

text \<open>
  The lines the reconciler prints, the calls of \<open>dhtService.announceFile\<close> it issues
  (\<open>fileId\<close>, \<open>filePath\<close>, \<open>fileName\<close>, \<open>fileSize\<close>), and the service object.
  The network gives, for the \<open>k\<close>-th call of the pass, the clock reading and the
  outcome of the flush.
\<close>

datatype log_line =
    NoFilesInDatabase
  | FoundFiles "nat option"
  | Rehydrated string
  | FileMissingOnDisk string
  | SkippingInvalidEntry string
  | RehydrationComplete
  | RehydrationError string

type_synonym announce_call = "string \<times> string \<times> string \<times> js_number"

record rehydration =
  node :: dht_service
  console :: "log_line list"
  announced :: "announce_call list"

record network =
  clock :: "nat \<Rightarrow> string"
  flush_result :: "nat \<Rightarrow> string option"

definition call_of :: "file_record \<Rightarrow> announce_call" where
  "call_of file =
     (rec_fileId file, rec_filePath file, rec_fileName file, parseInt (rec_fileSize file))"

text \<open>The \<open>for (const file of files)\<close> loop. It returns the state at its exit and the
  exception that left it, if any.\<close>

fun rehydrate_loop ::
  "network \<Rightarrow> filesystem \<Rightarrow> file_record list \<Rightarrow> rehydration \<Rightarrow> rehydration \<times> js_error option" where
  "rehydrate_loop net fs [] st = (st, None)"
| "rehydrate_loop net fs (file # files) st =
     (if existsSync fs (rec_filePath file) then
        (let k = length (announced st);
             r = announceFile (clock net k) (flush_result net k) (node st)
                   (rec_fileId file) (rec_filePath file) (rec_fileName file)
                   (parseInt (rec_fileSize file));
             st1 = st\<lparr>node := snd r, announced := announced st @ [call_of file]\<rparr>
         in case fst r of
              Inl error \<Rightarrow> (st1, Some error)
            | Inr info \<Rightarrow>
                rehydrate_loop net fs files
                  (st1\<lparr>console := console st1 @ [Rehydrated (rec_fileName file)]\<rparr>))
      else
        rehydrate_loop net fs files
          (st\<lparr>console := console st @ [FileMissingOnDisk (rec_fileName file)]\<rparr>))"

definition rehydrateDHT ::
  "network \<Rightarrow> cassandra \<Rightarrow> filesystem \<Rightarrow> dht_service \<Rightarrow> rehydration" where
  "rehydrateDHT net db fs dhtService =
     (case getAllFiles db of
        Inl error \<Rightarrow>
          \<lparr>node = dhtService, console = [RehydrationError (message error)], announced = []\<rparr>
      | Inr files \<Rightarrow>
          if length files = 0 then
            \<lparr>node = dhtService, console = [NoFilesInDatabase], announced = []\<rparr>
          else
            (case rehydrate_loop net fs files
                    \<lparr>node = dhtService, console = [FoundFiles (Some (length files))],
                     announced = []\<rparr> of
               (st, None) \<Rightarrow> st\<lparr>console := console st @ [RehydrationComplete]\<rparr>
             | (st, Some error) \<Rightarrow>
                 st\<lparr>console := console st @ [RehydrationError (message error)]\<rparr>))"

text \<open>\<open>startServer\<close>: the process exits with status 1 when \<open>initializeDatabase\<close> fails,
  and listens after the rehydration otherwise.\<close>

datatype startup = Listening rehydration | ProcessExit nat

definition startServer ::
  "network \<Rightarrow> cassandra \<Rightarrow> filesystem \<Rightarrow> dht_service \<Rightarrow> startup" where
  "startServer net db fs dhtService =
     (case initializeDatabase db of
        Inl error \<Rightarrow> ProcessExit 1
      | Inr ok \<Rightarrow> Listening (rehydrateDHT net db fs dhtService))"

subsection \<open>The second rehydrateDHT of the repository (src/unnamed/part_000)\<close>

text \<open>
  This copy tests \<open>file.fieldId\<close> and passes \<open>file.field\<close>. The objects of
  \<open>getAllFiles\<close> have the properties \<open>fileId\<close>, \<open>filePath\<close>, \<open>fileName\<close>,
  \<open>fileSize\<close> and \<open>uploadedAt\<close> only, so both reads give \<open>undefined\<close> (\<open>None\<close>).
  \<open>undefined\<close> and the empty string are falsy. \<open>announceFile(undefined, ...)\<close> throws
  in \<open>update(fileId)\<close> before it changes the service object. The line that reports
  the number of files prints \<open>fileController.fileName\<close>, which is \<open>undefined\<close>.
\<close>

definition fieldId :: "file_record \<Rightarrow> string option" where
  "fieldId file = None"

definition field :: "file_record \<Rightarrow> string option" where
  "field file = None"

definition truthy :: "string option \<Rightarrow> bool" where
  "truthy v = (case v of None \<Rightarrow> False | Some s \<Rightarrow> s \<noteq> [])"

fun rehydrate_loop_part_000 ::
  "network \<Rightarrow> filesystem \<Rightarrow> file_record list \<Rightarrow> rehydration \<Rightarrow> rehydration \<times> js_error option" where
  "rehydrate_loop_part_000 net fs [] st = (st, None)"
| "rehydrate_loop_part_000 net fs (file # files) st =
     (if \<not> truthy (fieldId file) then
        rehydrate_loop_part_000 net fs files
          (st\<lparr>console := console st @ [SkippingInvalidEntry (rec_fileName file)]\<rparr>)
      else if existsSync fs (rec_filePath file) then
        (case field file of
           None \<Rightarrow>
             (st, Some (Error ''The data argument must be of type string. Received undefined''))
         | Some fid \<Rightarrow>
             (let k = length (announced st);
                  r = announceFile (clock net k) (flush_result net k) (node st)
                        fid (rec_filePath file) (rec_fileName file)
                        (parseInt (rec_fileSize file));
                  st1 = st\<lparr>node := snd r,
                           announced := announced st
                             @ [(fid, rec_filePath file, rec_fileName file,
                                 parseInt (rec_fileSize file))]\<rparr>
              in case fst r of
                   Inl error \<Rightarrow> (st1, Some error)
                 | Inr info \<Rightarrow>
                     rehydrate_loop_part_000 net fs files
                       (st1\<lparr>console := console st1 @ [Rehydrated (rec_fileName file)]\<rparr>)))
      else
        rehydrate_loop_part_000 net fs files
          (st\<lparr>console := console st @ [FileMissingOnDisk (rec_fileName file)]\<rparr>))"

definition rehydrateDHT_part_000 ::
  "network \<Rightarrow> cassandra \<Rightarrow> filesystem \<Rightarrow> dht_service \<Rightarrow> rehydration" where
  "rehydrateDHT_part_000 net db fs dhtService =
     (case getAllFiles db of
        Inl error \<Rightarrow>
          \<lparr>node = dhtService, console = [RehydrationError (message error)], announced = []\<rparr>
      | Inr files \<Rightarrow>
          if length files = 0 then
            \<lparr>node = dhtService, console = [NoFilesInDatabase], announced = []\<rparr>
          else
            (case rehydrate_loop_part_000 net fs files
                    \<lparr>node = dhtService, console = [FoundFiles None], announced = []\<rparr> of
               (st, None) \<Rightarrow> st\<lparr>console := console st @ [RehydrationComplete]\<rparr>
             | (st, Some error) \<Rightarrow>
                 st\<lparr>console := console st @ [RehydrationError (message error)]\<rparr>))"

section \<open>Notions used to state the properties\<close>

text \<open>The two maps of the service agree: the path map is the \<open>filePath\<close> column of the
  metadata map.\<close>

definition synced :: "dht_service \<Rightarrow> bool" where
  "synced this = (fileIdToPath this = map_option md_filePath \<circ> storedFiles this)"

text \<open>Whether the backing file of a record exists, the line the reconciler of server.js
  prints for a record it has processed, and the warnings among the printed lines.\<close>

definition present :: "filesystem \<Rightarrow> file_record \<Rightarrow> bool" where
  "present fs file = existsSync fs (rec_filePath file)"

definition line_of :: "filesystem \<Rightarrow> file_record \<Rightarrow> log_line" where
  "line_of fs file =
     (if present fs file then Rehydrated (rec_fileName file)
      else FileMissingOnDisk (rec_fileName file))"

definition is_missing_warning :: "log_line \<Rightarrow> bool" where
  "is_missing_warning l = (case l of FileMissingOnDisk n \<Rightarrow> True | _ \<Rightarrow> False)"

text \<open>The text of a chunk of ASCII bytes.\<close>

definition ascii_text :: "bytes \<Rightarrow> string" where
  "ascii_text raw = map (char_of \<circ> unat) raw"

subsection \<open>Concrete states for the evaluations\<close>

text \<open>A disk with \<open>/up/a.txt\<close> (the two bytes of \<open>hi\<close>) and an empty \<open>/up/c.txt\<close>; a node
  that has announced \<open>f1\<close>; a store with three records, the second without its file;
  and three networks: one whose flushes all resolve, one that rejects the first flush,
  one that rejects the second.\<close>

definition example_fs :: filesystem where
  "example_fs = [''/up/a.txt'' \<mapsto> RegularFile [0x68, 0x69], ''/up/c.txt'' \<mapsto> RegularFile []]"

definition example_node :: dht_service where
  "example_node =
     snd (announceFile ''2024-01-01T00:00:00.000Z'' None new_DHTService
            ''f1'' ''/up/a.txt'' ''a.txt'' (Num 2))"

definition example_db :: cassandra where
  "example_db =
     \<lparr>files_table =
        [\<lparr>file_id = ''f1'', file_path = ''/up/a.txt'', file_name = ''a.txt'',
          file_size = Some 2, uploaded_at = 1\<rparr>,
         \<lparr>file_id = ''f2'', file_path = ''/up/b.txt'', file_name = ''b.txt'',
          file_size = Some 7, uploaded_at = 2\<rparr>,
         \<lparr>file_id = ''f3'', file_path = ''/up/c.txt'', file_name = ''c.txt'',
          file_size = Some 0, uploaded_at = 3\<rparr>],
      db_now = 4, unavailable = None\<rparr>"

definition rec_a :: file_record where
  "rec_a = \<lparr>rec_fileId = ''f1'', rec_filePath = ''/up/a.txt'', rec_fileName = ''a.txt'',
             rec_fileSize = ''2'', rec_uploadedAt = 1\<rparr>"

definition rec_b :: file_record where
  "rec_b = \<lparr>rec_fileId = ''f2'', rec_filePath = ''/up/b.txt'', rec_fileName = ''b.txt'',
             rec_fileSize = ''7'', rec_uploadedAt = 2\<rparr>"

definition rec_c :: file_record where
  "rec_c = \<lparr>rec_fileId = ''f3'', rec_filePath = ''/up/c.txt'', rec_fileName = ''c.txt'',
             rec_fileSize = ''0'', rec_uploadedAt = 3\<rparr>"

definition steady_network :: network where
  "steady_network =
     \<lparr>clock = (\<lambda>k. ''2024-01-01T00:00:00.000Z''), flush_result = (\<lambda>k. None)\<rparr>"

definition failing_network :: network where
  "failing_network =
     \<lparr>clock = (\<lambda>k. ''2024-01-01T00:00:00.000Z''),
      flush_result = (\<lambda>k. if k = 0 then Some ''swarm destroyed'' else None)\<rparr>"

definition late_failure :: network where
  "late_failure =
     \<lparr>clock = (\<lambda>k. ''2024-01-01T00:00:00.000Z''),
      flush_result = (\<lambda>k. if k = 1 then Some ''swarm destroyed'' else None)\<rparr>"

section \<open>Properties of the primitives\<close>

lemma length_digest: "length (digest s) = 32"
  by (cases s rule: digest.cases) (simp add: bytes32_def)

lemma length_sha256: "length (sha256 m) = 32"
  by (simp add: sha256_def length_digest)

text \<open>The embedding of SHA-256 on the test vector of FIPS 180-4.\<close>

lemma sha256_abc:
  "hex (sha256 (utf8 ''abc''))
     = ''ba7816bf8f01cfea414140de5dae2223b00361a396177a9cb410ff61f20015ad''"
  by code_simp

lemma getMimeType_examples:
  "getMimeType ''report.pdf'' = ''application/pdf''"
  "getMimeType ''x.unknownext'' = ''application/octet-stream''"
  by code_simp+

lemma b64val_b64char: "n < 64 \<Longrightarrow> b64val (b64char n) = n"
  by (auto simp: b64val_def b64char_def Let_def)

lemma b64char_code: "(of_char (b64char n) :: nat) \<noteq> 61"
  by (auto simp: b64char_def)

lemma b64char_not_pad: "b64char n \<noteq> CHR ''=''"
proof
  assume "b64char n = CHR ''=''"
  then have "(of_char (b64char n) :: nat) = of_char (CHR ''='')" by simp
  then show False using b64char_code [of n] by simp
qed

lemma unat_byte_lt: "unat (a :: byte) < 256"
  using unsigned_less [of a] by simp

lemma split_div: "y < k \<Longrightarrow> (x * k + y) div k = (x::nat)"
  by simp

lemma split_mod: "y < k \<Longrightarrow> (x * k + y) mod k = (y::nat)"
  by simp

lemma sextets:
  assumes "a < (256::nat)" "b < 256" "c < 256"
  shows "a div 4 < 64" "a mod 4 * 16 + b div 16 < 64" "b mod 16 * 4 + c div 64 < 64"
        "c mod 64 < 64" "a mod 4 * 16 < 64" "b mod 16 * 4 < 64"
  using assms by arith+

lemma octets:
  assumes "a < (256::nat)" "b < 256" "c < 256"
  shows "a div 4 * 4 + (a mod 4 * 16 + b div 16) div 16 = a"
        "(a mod 4 * 16 + b div 16) mod 16 * 16 + (b mod 16 * 4 + c div 64) div 4 = b"
        "(b mod 16 * 4 + c div 64) mod 4 * 64 + c mod 64 = c"
        "a div 4 * 4 + (a mod 4 * 16) div 16 = a"
        "(a mod 4 * 16 + b div 16) mod 16 * 16 + (b mod 16 * 4) div 4 = b"
proof -
  have b16: "b div 16 < 16" and c64: "c div 64 < 4"
    using assms by simp_all
  show "a div 4 * 4 + (a mod 4 * 16 + b div 16) div 16 = a"
    by (simp only: split_div [OF b16] div_mult_mod_eq)
  show "(a mod 4 * 16 + b div 16) mod 16 * 16 + (b mod 16 * 4 + c div 64) div 4 = b"
    by (simp only: split_mod [OF b16] split_div [OF c64] div_mult_mod_eq)
  show "(b mod 16 * 4 + c div 64) mod 4 * 64 + c mod 64 = c"
    by (simp only: split_mod [OF c64] div_mult_mod_eq)
  show "a div 4 * 4 + (a mod 4 * 16) div 16 = a"
    by simp
  have b4: "(b mod 16 * 4) div 4 = b mod 16"
    by simp
  show "(a mod 4 * 16 + b div 16) mod 16 * 16 + (b mod 16 * 4) div 4 = b"
    by (simp only: split_mod [OF b16] b4 div_mult_mod_eq)
qed

text \<open>Decoding undoes the encoding, for every byte sequence.\<close>

lemma base64_roundtrip: "base64_decode (base64 bs) = bs"
proof (induction bs rule: base64.induct)
  case 1
  show ?case by simp
next
  case (2 a)
  show ?case
    using sextets [OF unat_byte_lt [of a] unat_byte_lt [of a] unat_byte_lt [of a]]
          octets [OF unat_byte_lt [of a] unat_byte_lt [of a] unat_byte_lt [of a]]
    by (simp add: b64val_b64char b64char_not_pad)
next
  case (3 a b)
  show ?case
    using sextets [OF unat_byte_lt [of a] unat_byte_lt [of b] unat_byte_lt [of b]]
          octets [OF unat_byte_lt [of a] unat_byte_lt [of b] unat_byte_lt [of b]]
    by (simp add: b64val_b64char b64char_not_pad)
next
  case (4 a b c r)
  show ?case
    using sextets [OF unat_byte_lt [of a] unat_byte_lt [of b] unat_byte_lt [of c]]
          octets [OF unat_byte_lt [of a] unat_byte_lt [of b] unat_byte_lt [of c]] "4.IH"
    by (simp add: b64val_b64char b64char_not_pad)
qed

lemma utf8_append: "utf8 (a @ b) = utf8 a @ utf8 b"
  by (simp add: utf8_def)

lemma concat_map_utf8: "concat (map utf8 cs) = utf8 (concat cs)"
  by (induction cs) (simp_all add: utf8_append utf8_def)

lemma of_char_lt_256: "(of_char c :: nat) < 256"
proof -
  have "(of_char c :: nat) mod 256 = of_char c" by simp
  then show ?thesis by (metis mod_less_divisor zero_less_numeral)
qed

lemma unat_byte_of_nat: "n < 256 \<Longrightarrow> unat (of_nat n :: byte) = n"
  by (simp add: unat_of_nat)

lemma buffer_toString_one:
  assumes "unat b < 128" and "buffer_toString bs = Some s"
  shows "buffer_toString (b # bs) = Some (char_of (unat b) # s)"
  using assms by (simp add: Let_def)

lemma buffer_toString_two:
  assumes "unat b = 192 + h" and "h = 2 \<or> h = 3" and "unat c = 128 + l" and "l < 64"
      and "buffer_toString bs = Some s"
  shows "buffer_toString (b # c # bs) = Some (char_of (64 * h + l) # s)"
  using assms by (auto simp: Let_def)

lemma buffer_toString_utf8_char:
  assumes "buffer_toString bs = Some s"
  shows "buffer_toString (utf8_char c @ bs) = Some (c # s)"
proof (cases "(of_char c :: nat) < 128")
  case True
  have enc: "utf8_char c = [of_nat (of_char c)]"
    using True by (simp add: utf8_char_def Let_def)
  have u: "unat (of_nat (of_char c) :: byte) = of_char c"
    using True by (intro unat_byte_of_nat) simp
  show ?thesis
    unfolding enc using buffer_toString_one [of "of_nat (of_char c)" bs s] True assms
    by (simp only: u append_Cons append_Nil char_of_char)
next
  case False
  let ?n = "of_char c :: nat"
  have n: "?n < 256" by (rule of_char_lt_256)
  have enc: "utf8_char c = [of_nat (192 + ?n div 64), of_nat (128 + ?n mod 64)]"
    using False by (simp only: utf8_char_def Let_def if_False)
  have hi: "?n div 64 = 2 \<or> ?n div 64 = 3"
    using False n by arith
  have b1: "unat (of_nat (192 + ?n div 64) :: byte) = 192 + ?n div 64"
    using hi by (intro unat_byte_of_nat) auto
  have b2: "unat (of_nat (128 + ?n mod 64) :: byte) = 128 + ?n mod 64"
    by (intro unat_byte_of_nat) simp
  have recombine: "char_of (64 * (?n div 64) + ?n mod 64) = c"
    by simp
  have "buffer_toString (of_nat (192 + ?n div 64) # of_nat (128 + ?n mod 64) # bs)
          = Some (char_of (64 * (?n div 64) + ?n mod 64) # s)"
    by (rule buffer_toString_two [OF b1 hi b2 _ assms]) simp
  then show ?thesis
    unfolding enc by (simp only: recombine append_Cons append_Nil)
qed

text \<open>A chunk that holds whole characters decodes to them.\<close>

lemma buffer_toString_utf8: "buffer_toString (utf8 s) = Some s"
proof (induction s)
  case Nil
  show ?case by (simp add: utf8_def)
next
  case (Cons c s)
  have "utf8 (c # s) = utf8_char c @ utf8 s"
    by (simp add: utf8_def)
  then show ?case
    using buffer_toString_utf8_char [OF Cons.IH, of c] by simp
qed

text \<open>A chunk cut inside a two-byte character does not: the first byte of \<open>U+00E9\<close>
  alone, and its second byte at the start of the next chunk.\<close>

lemma buffer_toString_cut_character:
  "buffer_toString [0xC3] = None" "buffer_toString [0xA9, 0x31, 0x0A] = None"
  by simp_all

lemma is_ws_newline: "is_ws newline"
  by (simp add: is_ws_def newline_def)

text \<open>A newline at the end of the buffer is trimmed away.\<close>

lemma trim_snoc_newline: "trim (s @ [newline]) = trim s"
proof (cases "\<forall>c\<in>set s. is_ws c")
  case True
  have a: "dropWhile is_ws s = []"
    using True by simp
  have b: "dropWhile is_ws (s @ [newline]) = dropWhile is_ws [newline]"
    using True by (intro dropWhile_append2) simp
  show ?thesis by (simp add: trim_def a b is_ws_newline)
next
  case False
  then obtain x where "x \<in> set s" "\<not> is_ws x"
    by blast
  then have "dropWhile is_ws (s @ [newline]) = dropWhile is_ws s @ [newline]"
    by (rule dropWhile_append1)
  then show ?thesis by (simp add: trim_def is_ws_newline)
qed

lemma parseInt_examples:
  "parseInt ''2'' = Num 2" "parseInt ''7'' = Num 7" "parseInt ''0'' = Num 0"
  by (simp_all add: parseInt_def to_double_def is_ws_def digit_of_def Let_def)

section \<open>The announcing node\<close>

lemma fst_announceFile:
  "fst (announceFile now flush this fileId filePath fileName fileSize)
     = (case flush of
          Some m \<Rightarrow> Inl (Error m)
        | None \<Rightarrow> Inr \<lparr>res_fileId = fileId, res_fileName = fileName,
                        res_topic = hex (server_topic fileId),
                        res_serverAddress = SERVER_ADDRESS\<rparr>)"
  by (simp add: announceFile_def Let_def split: option.split)

lemma storedFiles_announceFile:
  "storedFiles (snd (announceFile now flush this fileId filePath fileName fileSize)) fileId
     = Some \<lparr>md_filePath = filePath, md_fileName = fileName, md_topic = server_topic fileId,
             md_size = fileSize, md_uploadedAt = now, md_serverAddress = SERVER_ADDRESS\<rparr>"
  by (simp add: announceFile_def Let_def split: option.split)

lemma synced_new: "synced new_DHTService"
  by (simp add: synced_def new_DHTService_def fun_eq_iff)

lemma synced_run_op: "synced this \<Longrightarrow> synced (run_op this op)"
  by (cases op) (auto simp: synced_def announceFile_def Let_def fun_eq_iff split: option.split)

lemma synced_run_ops: "synced this \<Longrightarrow> synced (run_ops this ops)"
  unfolding run_ops_def
  by (induction ops arbitrary: this) (simp_all add: synced_run_op)

text \<open>
  C9. The topic is a function of the identifier alone: for every \<open>fileId\<close> the topic
  that \<open>announceFile\<close> derives has exactly 32 bytes and is the SHA-256 digest of the
  UTF-8 bytes of \<open>fileId\<close>; the lookup client derives the same bytes; and the topic
  joined by an announce is this topic. Being a function, equal identifiers give equal
  topics wherever they are computed.
\<close>

theorem topic_derivation:
  "length (server_topic fileId) = 32
   \<and> server_topic fileId = sha256 (utf8 fileId)
   \<and> client_topic fileId = server_topic fileId
   \<and> swarm_joins (snd (announceFile now flush this fileId filePath fileName fileSize))
       = swarm_joins this @ [server_topic fileId]"
  by (simp add: server_topic_def client_topic_def length_sha256 announceFile_def Let_def
           split: option.split)

text \<open>
  C10. After every sequence of announces on a fresh service object (failed ones
  included), and for every \<open>fileId\<close>: \<open>fileId\<close> is a key of \<open>storedFiles\<close> exactly when
  it is a key of \<open>fileIdToPath\<close>; \<open>getFilePath\<close> returns the \<open>filePath\<close> field of what
  \<open>getFileMetadata\<close> returns (both absent together); and \<open>hasFile\<close> is true exactly when
  \<open>getFileMetadata\<close> returns a record. The connection handler does not write to the
  service object.
\<close>

theorem maps_synchronized:
  "(fileId \<in> dom (storedFiles (run_ops new_DHTService ops)))
     = (fileId \<in> dom (fileIdToPath (run_ops new_DHTService ops)))
   \<and> getFilePath (run_ops new_DHTService ops) fileId
       = map_option md_filePath (getFileMetadata (run_ops new_DHTService ops) fileId)
   \<and> hasFile (run_ops new_DHTService ops) fileId
       = (getFileMetadata (run_ops new_DHTService ops) fileId \<noteq> None)"
proof -
  have "synced (run_ops new_DHTService ops)"
    by (rule synced_run_ops [OF synced_new])
  then show ?thesis
    by (auto simp: synced_def getFilePath_def getFileMetadata_def hasFile_def dom_def
             split: option.split)
qed

text \<open>
  C8. Announcing a \<open>fileId\<close> a second time, with any path, name and size, when the
  flush of the second call resolves: the call returns its result record; both maps
  equal the maps that the second call alone produces from the state before the first
  call; the second call joins the topic that the first call joined, so the set of joined
  topics is that of the second call alone; and \<open>hasFile(fileId)\<close> is true afterwards.
\<close>

theorem announce_idempotent:
  "fst (announceFile now2 None
          (snd (announceFile now1 flush1 this fileId filePath1 fileName1 fileSize1))
          fileId filePath2 fileName2 fileSize2)
     = Inr \<lparr>res_fileId = fileId, res_fileName = fileName2,
            res_topic = hex (server_topic fileId), res_serverAddress = SERVER_ADDRESS\<rparr>
   \<and> storedFiles (snd (announceFile now2 None
          (snd (announceFile now1 flush1 this fileId filePath1 fileName1 fileSize1))
          fileId filePath2 fileName2 fileSize2))
     = storedFiles (snd (announceFile now2 None this fileId filePath2 fileName2 fileSize2))
   \<and> fileIdToPath (snd (announceFile now2 None
          (snd (announceFile now1 flush1 this fileId filePath1 fileName1 fileSize1))
          fileId filePath2 fileName2 fileSize2))
     = fileIdToPath (snd (announceFile now2 None this fileId filePath2 fileName2 fileSize2))
   \<and> swarm_joins (snd (announceFile now2 None
          (snd (announceFile now1 flush1 this fileId filePath1 fileName1 fileSize1))
          fileId filePath2 fileName2 fileSize2))
     = swarm_joins this @ [server_topic fileId, server_topic fileId]
   \<and> set (swarm_joins (snd (announceFile now2 None
          (snd (announceFile now1 flush1 this fileId filePath1 fileName1 fileSize1))
          fileId filePath2 fileName2 fileSize2)))
     = set (swarm_joins (snd (announceFile now2 None this fileId filePath2 fileName2 fileSize2)))
   \<and> hasFile (snd (announceFile now2 None
          (snd (announceFile now1 flush1 this fileId filePath1 fileName1 fileSize1))
          fileId filePath2 fileName2 fileSize2)) fileId"
  by (simp add: announceFile_def Let_def hasFile_def split: option.split)

section \<open>The connection handler\<close>

lemma on_data_buffering:
  "newline \<notin> set (requestData conn @ data) \<Longrightarrow>
   on_data this fs conn data = conn\<lparr>requestData := requestData conn @ data\<rparr>"
  by (simp add: on_data_def Let_def)

text \<open>While no newline has arrived the handler only appends to its buffer.\<close>

lemma conn_run_buffering:
  "newline \<notin> set (requestData conn @ concat chunks) \<Longrightarrow>
   conn_run this fs conn (map Data chunks)
     = conn\<lparr>requestData := requestData conn @ concat chunks\<rparr>"
proof (induction chunks arbitrary: conn)
  case Nil
  show ?case by (simp add: conn_run_def)
next
  case (Cons d ds)
  have step: "on_data this fs conn d = conn\<lparr>requestData := requestData conn @ d\<rparr>"
    using Cons.prems by (intro on_data_buffering) auto
  have "conn_run this fs conn (map Data (d # ds))
          = conn_run this fs (on_data this fs conn d) (map Data ds)"
    by (simp add: conn_run_def)
  also have "\<dots> = (conn\<lparr>requestData := requestData conn @ d\<rparr>)
                     \<lparr>requestData :=
                        requestData (conn\<lparr>requestData := requestData conn @ d\<rparr>) @ concat ds\<rparr>"
    unfolding step using Cons.prems by (intro Cons.IH) simp
  finally show ?case by simp
qed

lemma conn_run_snoc:
  "conn_run this fs conn (map Data (chunks @ [data]))
     = on_data this fs (conn_run this fs conn (map Data chunks)) data"
  by (simp add: conn_run_def)

text \<open>When every chunk holds whole characters, the callback sees the chunks' texts.\<close>

lemma conn_receive_utf8:
  "conn_receive this fs conn (map utf8 chunks)
     = Some (conn_run this fs conn (map Data chunks))"
  by (induction chunks arbitrary: conn) (simp_all add: buffer_toString_utf8 conn_run_def)

lemma on_data_missing:
  assumes "newline \<in> set (requestData conn @ data)"
      and "storedFiles this (trim (requestData conn @ data)) = None"
      and "\<not> ended conn"
  shows "on_data this fs conn data =
           conn\<lparr>requestData := requestData conn @ data,
                written := written conn
                  @ [Failure ''File not found''
                       (''No file with ID: '' @ trim (requestData conn @ data))],
                timers := timers conn @ [100]\<rparr>"
  using assms by (simp add: on_data_def Let_def conn_write_def)

lemma on_data_found:
  assumes "newline \<in> set (requestData conn @ data)"
      and "storedFiles this (trim (requestData conn @ data)) = Some fileInfo"
      and "fs (md_filePath fileInfo) = Some (RegularFile content)"
      and "\<not> ended conn"
  shows "on_data this fs conn data =
           conn\<lparr>requestData := requestData conn @ data,
                written := written conn
                  @ [Success (trim (requestData conn @ data)) (md_fileName fileInfo)
                       (length content) (getMimeType (md_fileName fileInfo)) SERVER_ADDRESS
                       (base64 content)],
                timers := timers conn @ [100],
                reads := reads conn @ [md_filePath fileInfo]\<rparr>"
  using assms by (simp add: on_data_def Let_def conn_write_def readFileSync_def)

text \<open>Once the buffer holds a newline, every chunk that arrives before \<open>conn.end()\<close>
  has run is answered with a document of its own and schedules a timer of its own.\<close>

lemma every_chunk_after_newline_is_answered:
  assumes "newline \<in> set (requestData conn)" and "\<not> ended conn"
  shows "length (written (on_data this fs conn data)) = Suc (length (written conn))
       \<and> timers (on_data this fs conn data) = timers conn @ [100]"
  using assms
  by (simp add: on_data_def Let_def conn_write_def split: option.split sum.split)

text \<open>The chunk that brings the first newline is answered with one document, and one
  timer of 100 ms is set.\<close>

lemma first_request_one_response:
  assumes "newline \<notin> set (concat chunks)" and "newline \<in> set (concat chunks @ data)"
  shows "length (written (conn_run this fs new_connection (map Data (chunks @ [data])))) = 1
       \<and> timers (conn_run this fs new_connection (map Data (chunks @ [data]))) = [100]"
proof -
  have buf: "conn_run this fs new_connection (map Data chunks)
               = new_connection\<lparr>requestData := concat chunks\<rparr>"
    using conn_run_buffering [of new_connection chunks this fs] assms(1)
    by (simp add: new_connection_def)
  show ?thesis
    unfolding conn_run_snoc buf using assms(2)
    by (simp add: on_data_def Let_def conn_write_def new_connection_def
          split: option.split sum.split)
qed

text \<open>The decoded request for an announced identifier, in any cut into pieces whose
  last piece is not empty.\<close>

lemma conn_run_roundtrip:
  assumes "fs filePath = Some (RegularFile P)"
      and "trim fileId = fileId"
      and "newline \<notin> set fileId"
      and "concat chunks @ data = fileId @ [newline]"
      and "data \<noteq> []"
  shows "conn_run (snd (announceFile now flush this fileId filePath fileName fileSize))
           fs new_connection (map Data (chunks @ [data]))
         = \<lparr>requestData = fileId @ [newline],
            written = [Success fileId fileName (length P) (getMimeType fileName)
                         SERVER_ADDRESS (base64 P)],
            timers = [100], ended = False, reads = [filePath]\<rparr>"
proof -
  let ?node = "snd (announceFile now flush this fileId filePath fileName fileSize)"
  have "butlast (concat chunks @ data) = butlast (fileId @ [newline])"
    using assms(4) by simp
  then have pre: "concat chunks @ butlast data = fileId"
    using assms(5) by (simp add: butlast_append)
  have quiet: "newline \<notin> set (requestData new_connection @ concat chunks)"
    using assms(3) pre by (auto simp: new_connection_def)
  have buf: "conn_run ?node fs new_connection (map Data chunks)
               = new_connection\<lparr>requestData := concat chunks\<rparr>"
    using conn_run_buffering [OF quiet, of ?node fs] by (simp add: new_connection_def)
  show ?thesis
    unfolding conn_run_snoc buf
    by (subst on_data_found [where fileInfo = "\<lparr>md_filePath = filePath, md_fileName = fileName,
             md_topic = server_topic fileId, md_size = fileSize, md_uploadedAt = now,
             md_serverAddress = SERVER_ADDRESS\<rparr>" and content = P])
       (simp_all add: assms(1) assms(2) assms(4) trim_snoc_newline storedFiles_announceFile
          new_connection_def)
qed

lemma ascii_chunk:
  assumes "\<forall>b\<in>set raw. unat b < 128"
  shows "buffer_toString raw = Some (ascii_text raw)" and "utf8 (ascii_text raw) = raw"
  using assms
proof (induction raw)
  case Nil
  { case 1 show ?case by (simp add: ascii_text_def) }
  { case 2 show ?case by (simp add: ascii_text_def utf8_def) }
next
  case (Cons b raw)
  { case 1
    then show ?case using Cons.IH(1) by (simp add: ascii_text_def Let_def) }
  { case 2
    then have "unat b < 128" by simp
    then have "utf8_char (char_of (unat b)) = [b]"
      by (simp add: utf8_char_def Let_def)
    then show ?case
      using 2 Cons.IH(2) by (simp add: ascii_text_def utf8_def) }
qed

lemma ascii_utf8:
  assumes "\<forall>c\<in>set s. (of_char c :: nat) < 128"
  shows "\<forall>b\<in>set (utf8 s). unat b < 128"
  using assms
proof (induction s)
  case Nil
  show ?case by (simp add: utf8_def)
next
  case (Cons c s)
  then have "(of_char c :: nat) < 128" by simp
  then have "utf8_char c = [of_nat (of_char c)]"
         and "unat (of_nat (of_char c) :: byte) = of_char c"
    by (simp_all add: utf8_char_def Let_def unat_byte_of_nat)
  then show ?case
    using Cons by (simp add: utf8_def)
qed

text \<open>
  C3 (as amended). Let the file at \<open>filePath\<close> hold the bytes \<open>P\<close>, and let \<open>fileId\<close>
  (a string of code units below 256) contain no newline and have no white space at
  either end (\<open>trim fileId = fileId\<close>). After
  \<open>announceFile(fileId, filePath, fileName, fileSize)\<close>, whether or not its flush
  resolves, a connection receives the UTF-8 bytes of \<open>fileId\<close> followed by a newline,
  cut into chunks that each hold whole characters (no chunk boundary falls inside the
  bytes of one character; for an ASCII identifier every boundary is such), the last
  chunk not empty. It is answered with exactly one document: \<open>success: true\<close>,
  \<open>fileId\<close>, \<open>fileName\<close>, \<open>size\<close> the length of \<open>P\<close>, and a \<open>content\<close> that decodes
  from base64 to \<open>P\<close>. One timer of 100 ms is set and the file is read once.
\<close>

theorem announce_request_roundtrip:
  assumes "fs filePath = Some (RegularFile P)"
      and "trim fileId = fileId"
      and "newline \<notin> set fileId"
      and "concat chunks @ data = fileId @ [newline]"
      and "data \<noteq> []"
  shows "concat (map utf8 (chunks @ [data])) = utf8 (fileId @ [newline])
       \<and> conn_receive (snd (announceFile now flush this fileId filePath fileName fileSize))
           fs new_connection (map utf8 (chunks @ [data]))
         = Some \<lparr>requestData = fileId @ [newline],
                 written = [Success fileId fileName (length P) (getMimeType fileName)
                              SERVER_ADDRESS (base64 P)],
                 timers = [100], ended = False, reads = [filePath]\<rparr>
       \<and> map_option (map (base64_decode \<circ> resp_content) \<circ> written)
           (conn_receive (snd (announceFile now flush this fileId filePath fileName fileSize))
              fs new_connection (map utf8 (chunks @ [data])))
         = Some [P]"
proof -
  have wire: "concat (map utf8 (chunks @ [data])) = utf8 (fileId @ [newline])"
    using arg_cong [OF assms(4), of utf8] by (simp add: concat_map_utf8 utf8_append)
  have run: "conn_run (snd (announceFile now flush this fileId filePath fileName fileSize))
               fs new_connection (map Data (chunks @ [data]))
         = \<lparr>requestData = fileId @ [newline],
            written = [Success fileId fileName (length P) (getMimeType fileName)
                         SERVER_ADDRESS (base64 P)],
            timers = [100], ended = False, reads = [filePath]\<rparr>"
    using assms by (rule conn_run_roundtrip)
  show ?thesis
    unfolding conn_receive_utf8 run using wire by (simp add: base64_roundtrip)
qed

theorem announce_request_roundtrip_witness:
  "example_fs ''/up/a.txt'' = Some (RegularFile [0x68, 0x69])
   \<and> trim ''f1'' = ''f1''
   \<and> newline \<notin> set ''f1''
   \<and> concat [''f''] @ (''1'' @ [newline]) = ''f1'' @ [newline]
   \<and> ''1'' @ [newline] \<noteq> []
   \<and> conn_receive (snd (announceFile ''2024-01-01T00:00:00.000Z'' None new_DHTService
                          ''f1'' ''/up/a.txt'' ''a.txt'' (Num 2)))
        example_fs new_connection (map utf8 ([''f''] @ [''1'' @ [newline]]))
       = Some \<lparr>requestData = ''f1'' @ [newline],
               written = [Success ''f1'' ''a.txt'' 2 (getMimeType ''a.txt'') SERVER_ADDRESS
                            (base64 [0x68, 0x69])],
               timers = [100], ended = False, reads = [''/up/a.txt'']\<rparr>"
proof -
  have a: "example_fs ''/up/a.txt'' = Some (RegularFile [0x68, 0x69])"
    by (simp add: example_fs_def)
  have b: "trim ''f1'' = ''f1''"
    by (simp add: trim_def is_ws_def)
  have c: "newline \<notin> set ''f1''"
    by (simp add: newline_def)
  have d: "concat [''f''] @ (''1'' @ [newline]) = ''f1'' @ [newline]"
    by simp
  have e: "''1'' @ [newline] \<noteq> []"
    by simp
  show ?thesis
    using a b c d e
      announce_request_roundtrip [where fs = example_fs and filePath = "''/up/a.txt''"
        and P = "[0x68, 0x69]" and fileId = "''f1''" and chunks = "[''f'']"
        and data = "''1'' @ [newline]" and now = "''2024-01-01T00:00:00.000Z''"
        and flush = None and this = new_DHTService and fileName = "''a.txt''"
        and fileSize = "Num 2"]
    by simp
qed

text \<open>C3 as stated fails for an identifier with white space at an end: after
  \<open>announceFile(" f1", "/up/a.txt", "a.txt", 2)\<close> the request \<open>" f1\n"\<close>, received as
  one chunk, is trimmed to \<open>f1\<close>, which is not a key of the map, and the answer is
  \<open>File not found\<close>.\<close>

theorem padded_id_is_not_served:
  "example_fs ''/up/a.txt'' = Some (RegularFile [0x68, 0x69])
   \<and> conn_receive (snd (announceFile ''2024-01-01T00:00:00.000Z'' None new_DHTService
                          '' f1'' ''/up/a.txt'' ''a.txt'' (Num 2)))
        example_fs new_connection [utf8 ('' f1'' @ [newline])]
       = Some \<lparr>requestData = '' f1'' @ [newline],
               written = [Failure ''File not found'' ''No file with ID: f1''],
               timers = [100], ended = False, reads = []\<rparr>"
  by (simp add: buffer_toString_utf8)
     (simp add: example_fs_def announceFile_def new_DHTService_def Let_def
        on_data_def new_connection_def newline_def trim_def is_ws_def conn_write_def)

text \<open>For an ASCII identifier every cut of the request bytes into chunks holds whole
  characters, so the answer is the same in any chunking whose last chunk is not empty.\<close>

lemma ascii_request_any_chunking:
  assumes "fs filePath = Some (RegularFile P)"
      and "trim fileId = fileId"
      and "newline \<notin> set fileId"
      and "\<forall>c\<in>set fileId. (of_char c :: nat) < 128"
      and "concat raws @ raw = utf8 (fileId @ [newline])"
      and "raw \<noteq> []"
  shows "conn_receive (snd (announceFile now flush this fileId filePath fileName fileSize))
           fs new_connection (raws @ [raw])
         = Some \<lparr>requestData = fileId @ [newline],
                 written = [Success fileId fileName (length P) (getMimeType fileName)
                              SERVER_ADDRESS (base64 P)],
                 timers = [100], ended = False, reads = [filePath]\<rparr>"
proof -
  have "\<forall>c\<in>set (fileId @ [newline]). (of_char c :: nat) < 128"
    using assms(4) by (simp add: newline_def)
  then have all: "\<forall>b\<in>set (concat raws @ raw). unat b < 128"
    unfolding assms(5) by (rule ascii_utf8)
  then have each: "\<forall>r\<in>set (raws @ [raw]). \<forall>b\<in>set r. unat b < 128"
    by auto
  have aligned: "raws @ [raw] = map utf8 (map ascii_text raws @ [ascii_text raw])"
    using each by (simp add: ascii_chunk(2) map_idI)
  have "utf8 (concat (map ascii_text raws) @ ascii_text raw) = utf8 (fileId @ [newline])"
    using each by (simp add: utf8_append concat_map_utf8 [symmetric] ascii_chunk(2) map_idI
                     assms(5) o_def)
  then have "buffer_toString (utf8 (concat (map ascii_text raws) @ ascii_text raw))
               = buffer_toString (utf8 (fileId @ [newline]))"
    by simp
  then have decoded: "concat (map ascii_text raws) @ ascii_text raw = fileId @ [newline]"
    by (simp only: buffer_toString_utf8 option.inject)
  have nonempty: "ascii_text raw \<noteq> []"
    using assms(6) by (simp add: ascii_text_def)
  show ?thesis
    unfolding aligned conn_receive_utf8
    using conn_run_roundtrip [where fs = fs and filePath = filePath and P = P
            and fileId = fileId and chunks = "map ascii_text raws" and data = "ascii_text raw"
            and now = now and flush = flush and this = this and fileName = fileName
            and fileSize = fileSize]
          assms(1) assms(2) assms(3) decoded nonempty
    by simp
qed

text \<open>
  C4 (as amended). The handler has no bound on the buffered request: for every
  sequence of chunks without a newline, the buffer of the connection is the
  concatenation of all the chunks received, nothing has been written, no timer is
  pending and the connection has not been ended by the server.
\<close>

theorem request_buffer_unbounded:
  assumes "newline \<notin> set (concat chunks)"
  shows "conn_run this fs new_connection (map Data chunks)
           = new_connection\<lparr>requestData := concat chunks\<rparr>"
  using conn_run_buffering [of new_connection chunks this fs] assms
  by (simp add: new_connection_def)

theorem request_buffer_unbounded_witness:
  "newline \<notin> set (concat [''abc'', ''defgh''])
   \<and> conn_run example_node example_fs new_connection (map Data [''abc'', ''defgh''])
       = new_connection\<lparr>requestData := ''abcdefgh''\<rparr>"
  using request_buffer_unbounded [of "[''abc'', ''defgh'']" example_node example_fs]
  by (simp add: newline_def)

text \<open>C4 as stated fails: there is no bound beyond which the buffer stops growing, a
  rejection is written, a close is scheduled or the connection is ended.\<close>

theorem no_request_size_cap:
  "\<not> (\<exists>bound. \<forall>chunks. bound < length (concat chunks) \<longrightarrow>
         (let conn = conn_run new_DHTService Map.empty new_connection (map Data chunks)
          in length (requestData conn) \<le> bound
             \<or> written conn \<noteq> [] \<or> timers conn \<noteq> [] \<or> ended conn))"
proof
  assume "\<exists>bound. \<forall>chunks. bound < length (concat chunks) \<longrightarrow>
         (let conn = conn_run new_DHTService Map.empty new_connection (map Data chunks)
          in length (requestData conn) \<le> bound
             \<or> written conn \<noteq> [] \<or> timers conn \<noteq> [] \<or> ended conn)"
  then obtain bound where b: "\<And>chunks. bound < length (concat chunks) \<Longrightarrow>
         (let conn = conn_run new_DHTService Map.empty new_connection (map Data chunks)
          in length (requestData conn) \<le> bound
             \<or> written conn \<noteq> [] \<or> timers conn \<noteq> [] \<or> ended conn)"
    by blast
  have nl: "newline \<notin> set (requestData new_connection
                             @ concat [replicate (Suc bound) (CHR ''a'')])"
    by (simp add: new_connection_def newline_def)
  have run: "conn_run new_DHTService Map.empty new_connection
               (map Data [replicate (Suc bound) (CHR ''a'')])
               = new_connection\<lparr>requestData := replicate (Suc bound) (CHR ''a'')\<rparr>"
    using conn_run_buffering [OF nl] by (simp add: new_connection_def)
  show False
    using b [of "[replicate (Suc bound) (CHR ''a'')]"] unfolding run
    by (simp add: new_connection_def)
qed

text \<open>
  C5. One response per connection. On a fresh connection to the node that has
  announced \<open>f1\<close>, the chunk \<open>"f1\n"\<close> is answered with the file; a second chunk \<open>"x"\<close>
  that arrives before the timer has fired is answered again: the buffer still holds the
  newline, is trimmed to \<open>"f1\nx"\<close>, a second document (\<open>File not found\<close>) is written and
  a second timer is set.
\<close>

theorem second_chunk_gets_second_response:
  "conn_run example_node example_fs new_connection [Data (''f1'' @ [newline]), Data ''x'']
     = \<lparr>requestData = ''f1'' @ [newline] @ ''x'',
        written = [Success ''f1'' ''a.txt'' 2 ''text/plain'' ''127.0.0.1:3000''
                     (base64 [0x68, 0x69]),
                   Failure ''File not found'' (''No file with ID: f1'' @ [newline] @ ''x'')],
        timers = [100, 100], ended = False, reads = [''/up/a.txt'']\<rparr>"
  by (simp add: example_node_def example_fs_def announceFile_def new_DHTService_def Let_def
        conn_run_def on_data_def new_connection_def newline_def trim_def is_ws_def
        conn_write_def readFileSync_def getMimeType_def extname_def basename_part_def
        toLowerCase_def lower_char_def mimeTypes_def SERVER_ADDRESS_def)

text \<open>
  C7 (as amended). On a fresh connection, when the chunk that brings the first newline
  arrives and the trimmed buffer, which is the identifier the handler looks up, is not a
  key of \<open>storedFiles\<close>, the handler writes exactly one document
  \<open>{success: false, error: 'File not found', message: 'No file with ID: ' + id}\<close>,
  sets one timer of 100 ms and reads no file.
\<close>

theorem unknown_id_not_found:
  assumes "newline \<notin> set (concat chunks)"
      and "newline \<in> set (concat chunks @ data)"
      and "storedFiles this (trim (concat chunks @ data)) = None"
  shows "conn_run this fs new_connection (map Data (chunks @ [data]))
           = \<lparr>requestData = concat chunks @ data,
              written = [Failure ''File not found''
                           (''No file with ID: '' @ trim (concat chunks @ data))],
              timers = [100], ended = False, reads = []\<rparr>"
proof -
  have buf: "conn_run this fs new_connection (map Data chunks)
               = new_connection\<lparr>requestData := concat chunks\<rparr>"
    using conn_run_buffering [of new_connection chunks this fs] assms(1)
    by (simp add: new_connection_def)
  show ?thesis
    unfolding conn_run_snoc buf
    using assms(2,3) by (subst on_data_missing) (simp_all add: new_connection_def)
qed

theorem unknown_id_not_found_witness:
  "newline \<notin> set (concat [''f'', ''2''])
   \<and> newline \<in> set (concat [''f'', ''2''] @ [newline])
   \<and> storedFiles example_node (trim (concat [''f'', ''2''] @ [newline])) = None
   \<and> conn_run example_node example_fs new_connection (map Data ([''f'', ''2''] @ [[newline]]))
       = \<lparr>requestData = ''f2'' @ [newline],
          written = [Failure ''File not found'' ''No file with ID: f2''],
          timers = [100], ended = False, reads = []\<rparr>"
proof -
  have a: "newline \<notin> set (concat [''f'', ''2''])" by (simp add: newline_def)
  have b: "newline \<in> set (concat [''f'', ''2''] @ [newline])" by simp
  have t: "trim (concat [''f'', ''2''] @ [newline]) = ''f2''"
    by (simp add: trim_def is_ws_def newline_def)
  have c: "storedFiles example_node (trim (concat [''f'', ''2''] @ [newline])) = None"
    unfolding t by (simp add: example_node_def announceFile_def new_DHTService_def Let_def)
  show ?thesis
    using a b c unknown_id_not_found [OF a b c, of example_fs] unfolding t by simp
qed

text \<open>C7 as stated fails for an identifier with white space at an end: \<open>" f1"\<close> was
  never announced and is not a key of the map, yet the request \<open>" f1\n"\<close> is trimmed to
  the announced \<open>f1\<close>, the file is read and the answer is a success.\<close>

theorem padded_unknown_id_is_served:
  "storedFiles example_node '' f1'' = None
   \<and> conn_run example_node example_fs new_connection [Data ('' f1'' @ [newline])]
       = \<lparr>requestData = '' f1'' @ [newline],
          written = [Success ''f1'' ''a.txt'' 2 ''text/plain'' ''127.0.0.1:3000''
                       (base64 [0x68, 0x69])],
          timers = [100], ended = False, reads = [''/up/a.txt'']\<rparr>"
  by (simp add: example_node_def example_fs_def announceFile_def new_DHTService_def Let_def
        conn_run_def on_data_def new_connection_def newline_def trim_def is_ws_def
        conn_write_def readFileSync_def getMimeType_def extname_def basename_part_def
        toLowerCase_def lower_char_def mimeTypes_def SERVER_ADDRESS_def)

section \<open>The metadata store\<close>

lemma example_records: "getAllFiles example_db = Inr [rec_a, rec_b, rec_c]"
  by (simp add: getAllFiles_def client_execute_def example_db_def row_to_record_def
        long_toString_def dec_digits.simps rec_a_def rec_b_def rec_c_def)

lemma getAllFiles_available:
  "getAllFiles db = Inr files \<Longrightarrow> initializeDatabase db = Inr True"
  by (auto simp: getAllFiles_def initializeDatabase_def client_execute_def
           split: option.splits)

text \<open>
  C6 (as amended). When the round trip to the backing store fails with message \<open>m\<close>,
  \<open>storeFileMetadata\<close>, \<open>getFileMetadata\<close>, \<open>getAllFiles\<close> and \<open>deleteFileMetadata\<close>
  raise that error to their caller and leave the store as it was; \<open>fileExists\<close> does
  not raise: it returns the normal value \<open>false\<close>.
\<close>

theorem store_failures_surface_except_exists:
  assumes "unavailable db = Some m"
  shows "storeFileMetadata db fileId filePath fileName fileSize = (Inl (Error m), db)
       \<and> db_getFileMetadata db fileId = Inl (Error m)
       \<and> getAllFiles db = Inl (Error m)
       \<and> deleteFileMetadata db fileId = (Inl (Error m), db)
       \<and> fileExists db fileId = Inr False"
  using assms
  by (simp add: storeFileMetadata_def db_getFileMetadata_def getAllFiles_def
        deleteFileMetadata_def fileExists_def client_execute_def)

theorem store_failures_surface_except_exists_witness:
  "unavailable (example_db\<lparr>unavailable := Some ''NoHostAvailableError''\<rparr>)
     = Some ''NoHostAvailableError''
   \<and> getAllFiles (example_db\<lparr>unavailable := Some ''NoHostAvailableError''\<rparr>)
       = Inl (Error ''NoHostAvailableError'')
   \<and> fileExists (example_db\<lparr>unavailable := Some ''NoHostAvailableError''\<rparr>) ''f1'' = Inr False"
  using store_failures_surface_except_exists
          [of "example_db\<lparr>unavailable := Some ''NoHostAvailableError''\<rparr>"
              "''NoHostAvailableError''" "''f1''" "''/up/a.txt''" "''a.txt''" 2]
  by simp

text \<open>C6 as stated fails for \<open>fileExists\<close>: with the store unreachable, \<open>getFileMetadata\<close>
  raises, while \<open>fileExists\<close> returns \<open>false\<close> for an identifier whose record exists.\<close>

theorem fileExists_swallows_failure:
  "db_getFileMetadata (example_db\<lparr>unavailable := Some ''NoHostAvailableError''\<rparr>) ''f1''
     = Inl (Error ''NoHostAvailableError'')
   \<and> fileExists (example_db\<lparr>unavailable := Some ''NoHostAvailableError''\<rparr>) ''f1'' = Inr False
   \<and> fileExists example_db ''f1'' = Inr True"
  by (simp add: fileExists_def db_getFileMetadata_def client_execute_def example_db_def)

section \<open>Rehydration\<close>

lemma loop_missing:
  "\<not> present fs f \<Longrightarrow>
   rehydrate_loop net fs (f # files) st
     = rehydrate_loop net fs files (st\<lparr>console := console st @ [line_of fs f]\<rparr>)"
  by (simp add: present_def line_of_def)

lemma loop_announce_ok:
  assumes "present fs f" and "flush_result net (length (announced st)) = None"
  shows "rehydrate_loop net fs (f # files) st
           = rehydrate_loop net fs files
               (st\<lparr>node := snd (announceFile (clock net (length (announced st))) None (node st)
                                 (rec_fileId f) (rec_filePath f) (rec_fileName f)
                                 (parseInt (rec_fileSize f))),
                    announced := announced st @ [call_of f],
                    console := console st @ [line_of fs f]\<rparr>)"
  using assms
  by (simp add: present_def line_of_def fst_announceFile Let_def)

lemma loop_announce_fails:
  assumes "present fs f" and "flush_result net (length (announced st)) = Some m"
  shows "rehydrate_loop net fs (f # files) st
           = (st\<lparr>node := snd (announceFile (clock net (length (announced st))) (Some m) (node st)
                                 (rec_fileId f) (rec_filePath f) (rec_fileName f)
                                 (parseInt (rec_fileSize f))),
                  announced := announced st @ [call_of f]\<rparr>, Some (Error m))"
  using assms
  by (simp add: present_def fst_announceFile Let_def)

text \<open>As long as no flush rejects, the loop works through a prefix of the records:
  one call per record whose file exists, one line per record.\<close>

lemma loop_prefix:
  assumes "\<forall>k < length (filter (present fs) pre).
             flush_result net (length (announced st) + k) = None"
  shows "\<exists>n'. rehydrate_loop net fs (pre @ rest) st
           = rehydrate_loop net fs rest
               (st\<lparr>node := n',
                    announced := announced st @ map call_of (filter (present fs) pre),
                    console := console st @ map (line_of fs) pre\<rparr>)"
  using assms
proof (induction pre arbitrary: st)
  case Nil
  have "rehydrate_loop net fs ([] @ rest) st
          = rehydrate_loop net fs rest
              (st\<lparr>node := node st,
                   announced := announced st @ map call_of (filter (present fs) []),
                   console := console st @ map (line_of fs) []\<rparr>)"
    by simp
  then show ?case by blast
next
  case (Cons f pre)
  show ?case
  proof (cases "present fs f")
    case False
    let ?st1 = "st\<lparr>console := console st @ [line_of fs f]\<rparr>"
    have "\<forall>k < length (filter (present fs) pre).
            flush_result net (length (announced ?st1) + k) = None"
      using Cons.prems False by simp
    from Cons.IH [OF this] obtain n' where
      "rehydrate_loop net fs (pre @ rest) ?st1
         = rehydrate_loop net fs rest
             (?st1\<lparr>node := n',
                   announced := announced ?st1 @ map call_of (filter (present fs) pre),
                   console := console ?st1 @ map (line_of fs) pre\<rparr>)"
      by blast
    then have "rehydrate_loop net fs ((f # pre) @ rest) st
         = rehydrate_loop net fs rest
             (st\<lparr>node := n',
                  announced := announced st @ map call_of (filter (present fs) (f # pre)),
                  console := console st @ map (line_of fs) (f # pre)\<rparr>)"
      using False by (simp add: loop_missing del: rehydrate_loop.simps)
    then show ?thesis by blast
  next
    case True
    have f0: "flush_result net (length (announced st)) = None"
      using Cons.prems True by (auto dest: spec [of _ 0])
    let ?n1 = "snd (announceFile (clock net (length (announced st))) None (node st)
                      (rec_fileId f) (rec_filePath f) (rec_fileName f)
                      (parseInt (rec_fileSize f)))"
    let ?st1 = "st\<lparr>node := ?n1, announced := announced st @ [call_of f],
                    console := console st @ [line_of fs f]\<rparr>"
    have step: "rehydrate_loop net fs (f # pre @ rest) st
                  = rehydrate_loop net fs (pre @ rest) ?st1"
      by (rule loop_announce_ok [OF True f0])
    have "\<forall>k < length (filter (present fs) pre).
            flush_result net (length (announced ?st1) + k) = None"
    proof (intro allI impI)
      fix k assume "k < length (filter (present fs) pre)"
      then have "Suc k < length (filter (present fs) (f # pre))"
        using True by simp
      then have "flush_result net (length (announced st) + Suc k) = None"
        using Cons.prems by blast
      then show "flush_result net (length (announced ?st1) + k) = None"
        by simp
    qed
    from Cons.IH [OF this] obtain n' where
      "rehydrate_loop net fs (pre @ rest) ?st1
         = rehydrate_loop net fs rest
             (?st1\<lparr>node := n',
                   announced := announced ?st1 @ map call_of (filter (present fs) pre),
                   console := console ?st1 @ map (line_of fs) pre\<rparr>)"
      by blast
    then have "rehydrate_loop net fs ((f # pre) @ rest) st
         = rehydrate_loop net fs rest
             (st\<lparr>node := n',
                  announced := announced st @ map call_of (filter (present fs) (f # pre)),
                  console := console st @ map (line_of fs) (f # pre)\<rparr>)"
      using True step by (simp del: rehydrate_loop.simps)
    then show ?thesis by blast
  qed
qed

lemma missing_warnings:
  "filter is_missing_warning (map (line_of fs) files)
     = map (FileMissingOnDisk \<circ> rec_fileName) (filter (\<lambda>f. \<not> present fs f) files)"
  by (induction files) (simp_all add: line_of_def is_missing_warning_def)

text \<open>
  The reconciler of server.js, when no flush rejects: it calls \<open>announceFile\<close> once for
  each record whose file exists, in order, with the record's \<open>fileId\<close>, \<open>filePath\<close>,
  \<open>fileName\<close> and \<open>parseInt(fileSize)\<close>; it prints one warning for each record whose
  file is missing; and \<open>startServer\<close> goes on to listen.
\<close>

lemma rehydrateDHT_announces_present_files:
  assumes "getAllFiles db = Inr files" and "\<forall>k. flush_result net k = None"
  shows "announced (rehydrateDHT net db fs dhtService) = map call_of (filter (present fs) files)
       \<and> filter is_missing_warning (console (rehydrateDHT net db fs dhtService))
           = map (FileMissingOnDisk \<circ> rec_fileName) (filter (\<lambda>f. \<not> present fs f) files)
       \<and> startServer net db fs dhtService = Listening (rehydrateDHT net db fs dhtService)"
proof (cases "files = []")
  case True
  then show ?thesis
    using assms(1)
    by (simp add: rehydrateDHT_def startServer_def getAllFiles_available [OF assms(1)]
          is_missing_warning_def)
next
  case False
  let ?st0 = "\<lparr>node = dhtService, console = [FoundFiles (Some (length files))],
               announced = []\<rparr>"
  have "\<forall>k < length (filter (present fs) files).
          flush_result net (length (announced ?st0) + k) = None"
    using assms(2) by simp
  from loop_prefix [OF this, of "[]"] obtain n' where
    loop: "rehydrate_loop net fs files ?st0
             = (\<lparr>node = n', console = FoundFiles (Some (length files)) # map (line_of fs) files,
                 announced = map call_of (filter (present fs) files)\<rparr>, None)"
    by auto
  have run: "rehydrateDHT net db fs dhtService
               = \<lparr>node = n',
                  console = FoundFiles (Some (length files)) # map (line_of fs) files
                            @ [RehydrationComplete],
                  announced = map call_of (filter (present fs) files)\<rparr>"
    using False by (simp add: rehydrateDHT_def assms(1) loop del: rehydrate_loop.simps)
  show ?thesis
    unfolding run
    by (simp add: missing_warnings is_missing_warning_def startServer_def
          getAllFiles_available [OF assms(1)] run)
qed

text \<open>The copy of src/unnamed/part_000 skips every record, whatever the disk holds.\<close>

lemma loop_part_000_skips:
  "rehydrate_loop_part_000 net fs files st
     = (st\<lparr>console := console st @ map (SkippingInvalidEntry \<circ> rec_fileName) files\<rparr>, None)"
  by (induction files arbitrary: st) (simp_all add: truthy_def fieldId_def)

text \<open>
  C1. The store holds three records; the files of the first and the third exist, the
  file of the second is missing, and every flush resolves. The claim asks for two calls
  of \<open>announceFile\<close> and one warning. The \<open>rehydrateDHT\<close> of src/unnamed/part_000 tests
  \<open>file.fieldId\<close>, which no record has: it skips all three records, calls
  \<open>announceFile\<close> for none of them, prints no warning for the missing file and leaves
  the service object empty.
\<close>

theorem part_000_rehydration_announces_nothing:
  "map (existsSync example_fs \<circ> file_path) (files_table example_db) = [True, False, True]
   \<and> rehydrateDHT_part_000 steady_network example_db example_fs new_DHTService
       = \<lparr>node = new_DHTService,
          console = [FoundFiles None, SkippingInvalidEntry ''a.txt'',
                     SkippingInvalidEntry ''b.txt'', SkippingInvalidEntry ''c.txt'',
                     RehydrationComplete],
          announced = []\<rparr>"
  by (simp add: rehydrateDHT_part_000_def example_records loop_part_000_skips)
     (simp add: example_db_def example_fs_def existsSync_def rec_a_def rec_b_def rec_c_def)

text \<open>On the same input the reconciler of server.js issues the two calls and the one
  warning.\<close>

lemma server_js_rehydration_example:
  "announced (rehydrateDHT steady_network example_db example_fs new_DHTService)
     = [(''f1'', ''/up/a.txt'', ''a.txt'', Num 2), (''f3'', ''/up/c.txt'', ''c.txt'', Num 0)]
   \<and> console (rehydrateDHT steady_network example_db example_fs new_DHTService)
       = [FoundFiles (Some 3), Rehydrated ''a.txt'', FileMissingOnDisk ''b.txt'',
          Rehydrated ''c.txt'', RehydrationComplete]"
  by (simp add: rehydrateDHT_def example_records steady_network_def example_fs_def
        existsSync_def fst_announceFile Let_def call_of_def parseInt_examples
        rec_a_def rec_b_def rec_c_def)

text \<open>
  C2 (as amended). A failure while one record is processed ends the pass. If the
  records are \<open>pre\<close>, then \<open>f\<close>, then \<open>post\<close>, the file of \<open>f\<close> exists, the flushes for
  \<open>pre\<close> resolve and the flush for \<open>f\<close> rejects with message \<open>m\<close>, then the reconciler
  has called \<open>announceFile\<close> for the records of \<open>pre\<close> whose files exist and for \<open>f\<close>,
  and for no record of \<open>post\<close>; it has printed the lines for \<open>pre\<close> and then the single
  error \<open>m\<close>; and it returns normally, so that \<open>startServer\<close> goes on to listen.
\<close>

theorem rehydration_stops_at_first_failure:
  assumes "getAllFiles db = Inr (pre @ f # post)"
      and "present fs f"
      and "\<forall>k < length (filter (present fs) pre). flush_result net k = None"
      and "flush_result net (length (filter (present fs) pre)) = Some m"
  shows "announced (rehydrateDHT net db fs dhtService)
           = map call_of (filter (present fs) pre) @ [call_of f]
       \<and> console (rehydrateDHT net db fs dhtService)
           = FoundFiles (Some (length (pre @ f # post))) # map (line_of fs) pre
             @ [RehydrationError m]
       \<and> startServer net db fs dhtService = Listening (rehydrateDHT net db fs dhtService)"
proof -
  let ?st0 = "\<lparr>node = dhtService, console = [FoundFiles (Some (length (pre @ f # post)))],
               announced = []\<rparr>"
  have "\<forall>k < length (filter (present fs) pre).
          flush_result net (length (announced ?st0) + k) = None"
    using assms(3) by simp
  from loop_prefix [OF this, of "f # post"] obtain n1 where
    pre: "rehydrate_loop net fs (pre @ f # post) ?st0
            = rehydrate_loop net fs (f # post)
                (?st0\<lparr>node := n1,
                      announced := announced ?st0 @ map call_of (filter (present fs) pre),
                      console := console ?st0 @ map (line_of fs) pre\<rparr>)"
    by blast
  let ?st1 = "?st0\<lparr>node := n1,
                   announced := announced ?st0 @ map call_of (filter (present fs) pre),
                   console := console ?st0 @ map (line_of fs) pre\<rparr>"
  have "flush_result net (length (announced ?st1)) = Some m"
    using assms(4) by simp
  from loop_announce_fails [OF assms(2) this, of post] obtain n2 where
    fail: "rehydrate_loop net fs (f # post) ?st1
             = (?st1\<lparr>node := n2, announced := announced ?st1 @ [call_of f]\<rparr>, Some (Error m))"
    by blast
  have run: "rehydrateDHT net db fs dhtService
               = \<lparr>node = n2,
                  console = FoundFiles (Some (length (pre @ f # post))) # map (line_of fs) pre
                            @ [RehydrationError m],
                  announced = map call_of (filter (present fs) pre) @ [call_of f]\<rparr>"
    using assms(1) pre fail by (simp add: rehydrateDHT_def)
  show ?thesis
    unfolding run by (simp add: startServer_def getAllFiles_available [OF assms(1)] run)
qed

theorem rehydration_stops_at_first_failure_witness:
  "getAllFiles example_db = Inr ([rec_a, rec_b] @ rec_c # [])
   \<and> present example_fs rec_c
   \<and> length (filter (present example_fs) [rec_a, rec_b]) = 1
   \<and> flush_result late_failure 0 = None
   \<and> flush_result late_failure (length (filter (present example_fs) [rec_a, rec_b]))
       = Some ''swarm destroyed''
   \<and> announced (rehydrateDHT late_failure example_db example_fs new_DHTService)
       = [(''f1'', ''/up/a.txt'', ''a.txt'', Num 2), (''f3'', ''/up/c.txt'', ''c.txt'', Num 0)]
   \<and> console (rehydrateDHT late_failure example_db example_fs new_DHTService)
       = [FoundFiles (Some 3), Rehydrated ''a.txt'', FileMissingOnDisk ''b.txt'',
          RehydrationError ''swarm destroyed'']"
proof -
  have a: "getAllFiles example_db = Inr ([rec_a, rec_b] @ rec_c # [])"
    by (simp add: example_records)
  have pa: "present example_fs rec_a" and pb: "\<not> present example_fs rec_b"
    and pc: "present example_fs rec_c"
    by (simp_all add: present_def existsSync_def example_fs_def rec_a_def rec_b_def rec_c_def)
  have n: "length (filter (present example_fs) [rec_a, rec_b]) = 1"
    using pa pb by simp
  have c: "\<forall>k < length (filter (present example_fs) [rec_a, rec_b]).
             flush_result late_failure k = None"
    unfolding n by (simp add: late_failure_def)
  have d: "flush_result late_failure (length (filter (present example_fs) [rec_a, rec_b]))
             = Some ''swarm destroyed''"
    unfolding n by (simp add: late_failure_def)
  have calls: "call_of rec_a = (''f1'', ''/up/a.txt'', ''a.txt'', Num 2)"
              "call_of rec_c = (''f3'', ''/up/c.txt'', ''c.txt'', Num 0)"
    by (simp_all add: call_of_def rec_a_def rec_c_def parseInt_examples)
  have lines: "line_of example_fs rec_a = Rehydrated ''a.txt''"
              "line_of example_fs rec_b = FileMissingOnDisk ''b.txt''"
    using pa pb by (simp_all add: line_of_def rec_a_def rec_b_def)
  have z: "flush_result late_failure 0 = None"
    by (simp add: late_failure_def)
  show ?thesis
    using a pc n z d
      rehydration_stops_at_first_failure [OF a pc c d, of new_DHTService]
    by (simp add: pa pb calls lines)
qed

text \<open>C2 as stated fails: when the flush of the first announce rejects, the second
  record (its file is missing) gets no warning and the third record, whose file exists,
  is never announced.\<close>

theorem announce_failure_aborts_pass:
  "announced (rehydrateDHT failing_network example_db example_fs new_DHTService)
     = [(''f1'', ''/up/a.txt'', ''a.txt'', Num 2)]
   \<and> console (rehydrateDHT failing_network example_db example_fs new_DHTService)
       = [FoundFiles (Some 3), RehydrationError ''swarm destroyed'']
   \<and> existsSync example_fs ''/up/c.txt''
   \<and> \<not> hasFile (node (rehydrateDHT failing_network example_db example_fs new_DHTService)) ''f3''"
  by (simp add: rehydrateDHT_def example_records failing_network_def example_fs_def
        existsSync_def announceFile_def Let_def call_of_def parseInt_examples
        hasFile_def new_DHTService_def rec_a_def rec_b_def rec_c_def)

end
